theory Spec2Isabelle
  imports Complex_Main "HOL-Library.Product_Lexorder" "HOL-Library.List_Lexorder"
    "HOL-Library.Char_ord"
begin


section \<open>Tables\<close>

text \<open>
  The scripts exchange pandas data frames and CSV files. A cell is a missing value
  (NaN, NaT, an empty CSV field), a number, a string or a timestamp (nanoseconds since the
  epoch). A frame is a list of column names and a list of rows; every row has one cell per
  column. Strings are lists of code points below 256. Paths are lists of components.
\<close>

datatype cell = Null | Num rat | Str string | Stamp int

record frame =
  columns :: "string list"
  rows :: "cell list list"

type_synonym path = "string list"

definition wf_frame :: "frame \<Rightarrow> bool" where
  "wf_frame df = (distinct (columns df) \<and> list_all (\<lambda>r. length r = length (columns df)) (rows df))"

fun col_index :: "string list \<Rightarrow> string \<Rightarrow> nat option" where
  "col_index [] c = None"
| "col_index (x # xs) c = (if x = c then Some 0 else map_option Suc (col_index xs c))"

text \<open>\<open>df[c]\<close>: the cells of the first column named \<open>c\<close> (callers check that it is there).\<close>

definition col_values :: "frame \<Rightarrow> string \<Rightarrow> cell list" where
  "col_values df c = (case col_index (columns df) c of
       None \<Rightarrow> []
     | Some i \<Rightarrow> map (\<lambda>r. r ! i) (rows df))"

text \<open>\<open>Series.nunique()\<close>: the number of distinct values, missing values not counted.\<close>

definition nunique :: "cell list \<Rightarrow> nat" where
  "nunique xs = length (remdups (filter (\<lambda>v. v \<noteq> Null) xs))"

text \<open>\<open>df.drop(columns=cs)\<close> for names that are all present.\<close>

definition keep_positions :: "string list \<Rightarrow> string list \<Rightarrow> 'a list \<Rightarrow> 'a list" where
  "keep_positions cols cs xs = map snd (filter (\<lambda>(c, x). c \<notin> set cs) (zip cols xs))"

definition drop_columns :: "frame \<Rightarrow> string list \<Rightarrow> frame" where
  "drop_columns df cs =
     \<lparr>columns = filter (\<lambda>c. c \<notin> set cs) (columns df),
      rows = map (keep_positions (columns df) cs) (rows df)\<rparr>"

text \<open>\<open>df.rename(columns=m)\<close>.\<close>

definition rename_columns :: "(string \<rightharpoonup> string) \<Rightarrow> frame \<Rightarrow> frame" where
  "rename_columns m df =
     df\<lparr>columns := map (\<lambda>c. case m c of None \<Rightarrow> c | Some c' \<Rightarrow> c') (columns df)\<rparr>"


section \<open>Strings and files\<close>

text \<open>\<open>str.lower()\<close> on code points below 256, and \<open>os.path.splitext\<close> on a file name.\<close>

definition py_lower_char :: "char \<Rightarrow> char" where
  "py_lower_char c =
     (let n = (of_char c :: nat)
      in if (65 \<le> n \<and> n \<le> 90) \<or> (192 \<le> n \<and> n \<le> 222 \<and> n \<noteq> 215) then char_of (n + 32) else c)"

definition py_lower :: "string \<Rightarrow> string" where
  "py_lower s = map py_lower_char s"

definition splitext :: "string \<Rightarrow> string \<times> string" where
  "splitext p =
     (case dropWhile (\<lambda>c. c \<noteq> CHR ''.'') (rev p) of
        [] \<Rightarrow> (p, [])
      | d # stem \<Rightarrow>
          if list_all (\<lambda>c. c = CHR ''.'') stem then (p, [])
          else (rev stem, drop (length stem) p))"

text \<open>
  The file store of the Joiner and the Sorter maps a path to a table (a CSV or Parquet
  file, as header and rows) or to an error log.
\<close>

datatype content = Table frame | Error_log

type_synonym store = "path \<rightharpoonup> content"

text \<open>
  \<open>to_csv(p, mode='a', header=False)\<close> appends rows to the file at \<open>p\<close>. The loop
  \<open>for i in range(0, len(df), cs)\<close> that writes a table in slices of \<open>cs > 0\<close> rows, the
  first with \<open>mode='w'\<close> and the header, comes back False when a write raises
  (\<open>fails i\<close>), leaving what was written so far.
\<close>

definition append_rows :: "store \<Rightarrow> path \<Rightarrow> cell list list \<Rightarrow> store" where
  "append_rows fs p chunk =
     fs(p \<mapsto> (case fs p of
                 Some (Table t) \<Rightarrow> Table (t\<lparr>rows := rows t @ chunk\<rparr>)
               | _ \<Rightarrow> Table \<lparr>columns = [], rows = chunk\<rparr>))"

function write_csv_chunks ::
  "(nat \<Rightarrow> bool) \<Rightarrow> path \<Rightarrow> frame \<Rightarrow> nat \<Rightarrow> nat \<Rightarrow> store \<Rightarrow> bool \<times> store" where
  "write_csv_chunks fails p df cs i fs =
     (if cs = 0 \<or> length (rows df) \<le> i then (True, fs)
      else if fails i then (False, fs)
      else write_csv_chunks fails p df cs (i + cs)
             (if i = 0 then fs(p \<mapsto> Table \<lparr>columns = columns df, rows = take cs (rows df)\<rparr>)
              else append_rows fs p (take cs (drop i (rows df)))))"
  by pat_completeness auto
termination
  by (relation "measure (\<lambda>(fails, p, df, cs, i, fs). length (rows df) - i)") auto


section \<open>Variable Extractor (era5-organized-converter.py)\<close>

subsection \<open>Year and month of a raw file\<close>

text \<open>
  \<open>int(s)\<close> on a string: surrounding whitespace is stripped, one sign is allowed, then
  decimal digits, with single underscores allowed between digits. The whitespace \<open>int\<close>
  strips is the ASCII whitespace (tab to carriage return, and the space) and, of the
  characters above 127, the next-line and the no-break space; the separators 28 to 31,
  which \<open>str.strip\<close> removes, are not stripped by \<open>int\<close>.
\<close>

definition is_py_space :: "char \<Rightarrow> bool" where
  "is_py_space c = (of_char c \<in> {9, 10, 11, 12, 13, 32, 133, 160 :: nat})"

definition is_digit :: "char \<Rightarrow> bool" where
  "is_digit c = (48 \<le> (of_char c :: nat) \<and> (of_char c :: nat) \<le> 57)"

definition py_strip :: "string \<Rightarrow> string" where
  "py_strip s = rev (dropWhile is_py_space (rev (dropWhile is_py_space s)))"

fun digits_us :: "string \<Rightarrow> bool" where
  "digits_us [] = False"
| "digits_us [c] = is_digit c"
| "digits_us (c # d # r) =
     (is_digit c \<and>
      (if d = CHR ''_'' then (case r of [] \<Rightarrow> False | _ \<Rightarrow> digits_us r)
       else digits_us (d # r)))"

definition py_int_ok :: "string \<Rightarrow> bool" where
  "py_int_ok s =
     (case py_strip s of
        [] \<Rightarrow> False
      | c # r \<Rightarrow> if c = CHR ''+'' \<or> c = CHR ''-'' then digits_us r else digits_us (c # r))"

text \<open>\<open>str(n)\<close> for a natural number and the format \<open>{n:02d}\<close>.\<close>

definition digit_char :: "nat \<Rightarrow> char" where
  "digit_char d = char_of (48 + d)"

function str_nat :: "nat \<Rightarrow> string" where
  "str_nat n = (if n < 10 then [digit_char n] else str_nat (n div 10) @ [digit_char (n mod 10)])"
  by pat_completeness auto
termination
  by (relation "measure id") auto

definition fmt_02d :: "nat \<Rightarrow> string" where
  "fmt_02d n = (if n < 10 then CHR ''0'' # str_nat n else str_nat n)"

text \<open>
  Lines 47 to 61 of \<open>process_era5_variable\<close>: the year and month are the first four and
  the next two characters of the base name when \<open>int\<close> accepts both, and the current
  year and month otherwise (the second component is True when the warning is logged).
\<close>

definition year_month_of :: "nat \<times> nat \<Rightarrow> string \<Rightarrow> (string \<times> string) \<times> bool" where
  "year_month_of now base_filename =
     (let year = take 4 base_filename;
          month = take 2 (drop 4 base_filename)
      in if py_int_ok year \<and> py_int_ok month then ((year, month), False)
         else ((str_nat (fst now), fmt_02d (snd now)), True))"

subsection \<open>One variable of a raw file\<close>

text \<open>
  The decoder (xarray with cfgrib) is outside the repository. A decoded variable gives its
  dimension names, the length of a dimension, and the flat table of a time slice or of
  the whole variable; \<open>None\<close> stands for a decode that raises. A data set lists, per
  variable, its name, its short name (attribute \<open>GRIB_shortName\<close>, else \<open>shortName\<close>,
  else the name) and its data.
\<close>

record var_data =
  vd_dims :: "string list"
  vd_len :: "string \<Rightarrow> nat"
  vd_slice :: "string \<Rightarrow> nat \<Rightarrow> nat \<Rightarrow> frame option"
  vd_whole :: "frame option"

type_synonym dataset = "(string \<times> string \<times> var_data) list"

record grib =
  gf_base_filename :: string
  gf_open :: "string option \<Rightarrow> dataset option"
  gf_discovered :: "string list"

record extract_cfg =
  output_dir :: path
  time_chunk_size :: int
  remove_constant_cols :: bool
  decimal_precision :: "int option"

type_synonym files = "path \<rightharpoonup> frame"

definition map_column :: "(cell \<Rightarrow> cell) \<Rightarrow> string \<Rightarrow> frame \<Rightarrow> frame" where
  "map_column f c df = (case col_index (columns df) c of
       None \<Rightarrow> df
     | Some i \<Rightarrow> df\<lparr>rows := map (\<lambda>r. r[i := f (r ! i)]) (rows df)\<rparr>)"

definition is_numeric_dtype :: "cell list \<Rightarrow> bool" where
  "is_numeric_dtype xs = list_all (\<lambda>v. case v of Null \<Rightarrow> True | Num _ \<Rightarrow> True | _ \<Rightarrow> False) xs"

text \<open>
  \<open>round_coordinates\<close>; \<open>rnd p\<close> is \<open>Series.round(p)\<close> on one cell, a parameter of the
  model.
\<close>

definition round_coordinates :: "(int \<Rightarrow> cell \<Rightarrow> cell) \<Rightarrow> int \<Rightarrow> frame \<Rightarrow> frame" where
  "round_coordinates rnd p df =
     fold (\<lambda>c d. if c \<in> set (columns d) \<and> is_numeric_dtype (col_values d c)
                  then map_column (rnd p) c d else d)
       [''latitude'', ''lat'', ''Latitude'', ''Lat'',
        ''longitude'', ''lon'', ''Longitude'', ''Lon''] df"

text \<open>Lines 175 to 185 (and 214 to 224): the constant-column check.\<close>

definition cols_to_check :: "string list" where
  "cols_to_check = [''number'', ''step'', ''surface'']"

definition cols_to_remove :: "frame \<Rightarrow> string list" where
  "cols_to_remove df =
     filter (\<lambda>col. col \<in> set (columns df) \<and> nunique (col_values df col) = 1) cols_to_check"

definition prune_constant_cols :: "frame \<Rightarrow> frame" where
  "prune_constant_cols df =
     (if cols_to_remove df \<noteq> [] then drop_columns df (cols_to_remove df) else df)"

text \<open>The table written for one chunk: rounding, pruning, renaming the variable column.\<close>

definition finish_frame :: "(int \<Rightarrow> cell \<Rightarrow> cell) \<Rightarrow> extract_cfg \<Rightarrow> string \<Rightarrow> frame \<Rightarrow> frame" where
  "finish_frame rnd cfg var_name df =
     (let df1 = (case decimal_precision cfg of None \<Rightarrow> df | Some p \<Rightarrow> round_coordinates rnd p df);
          df2 = (if remove_constant_cols cfg then prune_constant_cols df1 else df1)
      in if var_name \<in> set (columns df2)
         then rename_columns [var_name \<mapsto> ''value''] df2 else df2)"

definition var_output_dir :: "extract_cfg \<Rightarrow> string \<Rightarrow> string \<Rightarrow> string \<Rightarrow> path" where
  "var_output_dir cfg year month var_name = output_dir cfg @ [year, month, var_name]"

definition chunk_filename :: "string \<Rightarrow> string \<Rightarrow> string \<Rightarrow> nat \<Rightarrow> nat \<Rightarrow> string" where
  "chunk_filename year month var_name chunk_start chunk_end =
     year @ month @ ''_'' @ var_name @ ''_chunk_'' @ str_nat chunk_start @ ''_'' @
     str_nat chunk_end @ ''.csv''"

definition whole_filename :: "string \<Rightarrow> string \<Rightarrow> string \<Rightarrow> string" where
  "whole_filename year month var_name = year @ month @ ''_'' @ var_name @ ''.csv''"

text \<open>
  The loop over time chunks, from offset \<open>i\<close>, for a positive chunk size. The result is
  False when a decode raised; the files written before that stay.
\<close>

function chunk_loop ::
  "(int \<Rightarrow> cell \<Rightarrow> cell) \<Rightarrow> extract_cfg \<Rightarrow> var_data \<Rightarrow> string \<Rightarrow> string \<Rightarrow> string \<Rightarrow> string \<Rightarrow>
   nat \<Rightarrow> nat \<Rightarrow> nat \<Rightarrow> files \<Rightarrow> bool \<times> files" where
  "chunk_loop rnd cfg vd time_dim year month var_name cs time_steps i fs =
     (if cs = 0 \<or> time_steps \<le> i then (True, fs)
      else let chunk_end = min (i + cs) time_steps
           in case vd_slice vd time_dim i chunk_end of
                None \<Rightarrow> (False, fs)
              | Some df \<Rightarrow>
                  chunk_loop rnd cfg vd time_dim year month var_name cs time_steps (i + cs)
                    (fs(var_output_dir cfg year month var_name @
                          [chunk_filename year month var_name i chunk_end]
                        \<mapsto> finish_frame rnd cfg var_name df)))"
  by pat_completeness auto
termination
  by (relation "measure (\<lambda>(rnd, cfg, vd, td, y, m, v, cs, n, i, fs). n - i)") auto

definition time_dim_of :: "var_data \<Rightarrow> string option" where
  "time_dim_of vd =
     (if ''time'' \<in> set (vd_dims vd) then Some ''time''
      else if ''time1'' \<in> set (vd_dims vd) then Some ''time1''
      else if ''time2'' \<in> set (vd_dims vd) then Some ''time2''
      else None)"

definition process_variable_data ::
  "(int \<Rightarrow> cell \<Rightarrow> cell) \<Rightarrow> extract_cfg \<Rightarrow> var_data \<Rightarrow> string \<Rightarrow> string \<Rightarrow> string \<Rightarrow>
   files \<Rightarrow> bool \<times> files" where
  "process_variable_data rnd cfg vd year month var_name fs =
     (case time_dim_of vd of
        Some time_dim \<Rightarrow>
          if time_chunk_size cfg = 0 then (False, fs)
          else if time_chunk_size cfg < 0 then (True, fs)
          else chunk_loop rnd cfg vd time_dim year month var_name (nat (time_chunk_size cfg))
                 (vd_len vd time_dim) 0 fs
      | None \<Rightarrow>
          (case vd_whole vd of
             None \<Rightarrow> (False, fs)
           | Some df \<Rightarrow>
               (True, fs(var_output_dir cfg year month var_name @
                           [whole_filename year month var_name]
                         \<mapsto> finish_frame rnd cfg var_name df))))"

text \<open>The loop of lines 103 to 109 over the variables of a data set.\<close>

fun process_all_vars ::
  "(int \<Rightarrow> cell \<Rightarrow> cell) \<Rightarrow> extract_cfg \<Rightarrow> string \<Rightarrow> string \<Rightarrow> dataset \<Rightarrow> files \<Rightarrow> bool \<times> files" where
  "process_all_vars rnd cfg year month [] fs = (True, fs)"
| "process_all_vars rnd cfg year month ((var_name, short_name, vd) # ds) fs =
     (case process_variable_data rnd cfg vd year month short_name fs of
        (False, fs') \<Rightarrow> (False, fs')
      | (True, fs') \<Rightarrow> process_all_vars rnd cfg year month ds fs')"

text \<open>
  \<open>process_era5_variable\<close>: True when the variable was decoded and written, False when
  anything inside the \<open>try\<close> raised. \<open>now\<close> is the year and month of \<open>datetime.now()\<close>.
\<close>

definition process_era5_variable ::
  "(int \<Rightarrow> cell \<Rightarrow> cell) \<Rightarrow> nat \<times> nat \<Rightarrow> extract_cfg \<Rightarrow> grib \<Rightarrow> string option \<Rightarrow> files \<Rightarrow>
   bool \<times> files" where
  "process_era5_variable rnd now cfg g variable_name fs =
     (let ((year, month), warned) = year_month_of now (gf_base_filename g);
          wanted = (case variable_name of None \<Rightarrow> None | Some v \<Rightarrow> if v = [] then None else Some v)
      in case gf_open g wanted of
           None \<Rightarrow> (False, fs)
         | Some ds \<Rightarrow>
             (case (case wanted of None \<Rightarrow> None
                    | Some v \<Rightarrow> map_of (map (\<lambda>(n, s, d). (n, d)) ds) v) of
                Some vd \<Rightarrow> process_variable_data rnd cfg vd year month (the wanted) fs
              | None \<Rightarrow>
                  (case ds of
                     [(var_name, short_name, vd)] \<Rightarrow>
                       process_variable_data rnd cfg vd year month short_name fs
                   | _ \<Rightarrow> process_all_vars rnd cfg year month ds fs)))"

subsection \<open>All variables of a raw file\<close>

text \<open>
  \<open>process_era5_file\<close>, lines 385 to 426: the variables to process, then one call of
  \<open>process_era5_variable\<close> per variable; the result lists the variables that succeeded and
  those that failed.
\<close>

definition variables_to_process ::
  "grib \<Rightarrow> string list option \<Rightarrow> string list option \<Rightarrow> string list" where
  "variables_to_process g variables exclude_variables =
     (let chosen = (case variables of None \<Rightarrow> gf_discovered g | Some vs \<Rightarrow> vs)
      in case exclude_variables of
           None \<Rightarrow> chosen
         | Some ex \<Rightarrow> filter (\<lambda>v. v \<notin> set ex) chosen)"

fun extract_loop ::
  "(int \<Rightarrow> cell \<Rightarrow> cell) \<Rightarrow> nat \<times> nat \<Rightarrow> extract_cfg \<Rightarrow> grib \<Rightarrow> string list \<Rightarrow>
   string list \<Rightarrow> string list \<Rightarrow> files \<Rightarrow> (string list \<times> string list) \<times> files" where
  "extract_loop rnd now cfg g [] successful failed fs = ((successful, failed), fs)"
| "extract_loop rnd now cfg g (var_name # vs) successful failed fs =
     (case process_era5_variable rnd now cfg g (Some var_name) fs of
        (True, fs') \<Rightarrow> extract_loop rnd now cfg g vs (successful @ [var_name]) failed fs'
      | (False, fs') \<Rightarrow> extract_loop rnd now cfg g vs successful (failed @ [var_name]) fs')"

definition process_era5_file ::
  "(int \<Rightarrow> cell \<Rightarrow> cell) \<Rightarrow> nat \<times> nat \<Rightarrow> extract_cfg \<Rightarrow> grib \<Rightarrow> string list option \<Rightarrow>
   string list option \<Rightarrow> files \<Rightarrow> (string list \<times> string list) \<times> files" where
  "process_era5_file rnd now cfg g variables exclude_variables fs =
     (let vs = variables_to_process g variables exclude_variables
      in if vs = [] then (([], []), fs)
         else extract_loop rnd now cfg g vs [] [] fs)"

text \<open>
  The script's entry point calls \<open>process_era5_file\<close> and drops its result; the process
  ends with status 0 unless an exception escapes, and the only statement of
  \<open>process_era5_file\<close> outside a \<open>try\<close> that can raise on its own is the creation of
  the output directory (\<open>makedirs_ok\<close>). The Orchestrator's \<open>run_converter\<close> starts the
  script as a child process and reports success when the exit status is 0
  (\<open>popen_ok\<close> is False when starting the child raises).
\<close>

definition converter_main ::
  "(int \<Rightarrow> cell \<Rightarrow> cell) \<Rightarrow> nat \<times> nat \<Rightarrow> bool \<Rightarrow> extract_cfg \<Rightarrow> grib \<Rightarrow> string list option \<Rightarrow>
   string list option \<Rightarrow> files \<Rightarrow> int \<times> files" where
  "converter_main rnd now makedirs_ok cfg g variables exclude_variables fs =
     (if \<not> makedirs_ok then (1, fs)
      else (0, snd (process_era5_file rnd now cfg g variables exclude_variables fs)))"

definition run_converter :: "bool \<Rightarrow> int \<Rightarrow> bool" where
  "run_converter popen_ok returncode = (popen_ok \<and> returncode = 0)"

definition ex_chunk :: frame where
  "ex_chunk = \<lparr>columns = [''time'', ''number'', ''latitude'', ''longitude'', ''t2m''],
     rows = [[Stamp 0, Num 0, Num 35, Num 10, Num 280],
             [Stamp 1, Num 0, Num 35, Num 11, Num 281]]\<rparr>"

definition ex_cfg :: extract_cfg where
  "ex_cfg = \<lparr>output_dir = [''processed''], time_chunk_size = 24, remove_constant_cols = True,
     decimal_precision = None\<rparr>"

definition variable_ok :: "(int \<Rightarrow> cell \<Rightarrow> cell) \<Rightarrow> nat \<times> nat \<Rightarrow> extract_cfg \<Rightarrow> grib \<Rightarrow> string \<Rightarrow> bool" where
  "variable_ok rnd now cfg g v = fst (process_era5_variable rnd now cfg g (Some v) Map.empty)"

definition corrupt_grib :: grib where
  "corrupt_grib = \<lparr>gf_base_filename = ''202105'', gf_open = (\<lambda>v. None), gf_discovered = [''wind_v'']\<rparr>"



section \<open>Coordinate-Key Joiner (era5-data-joiner.py)\<close>

subsection \<open>Column roles\<close>

text \<open>
  A name taken from a dictionary is used when it is truthy: present and not the empty
  string. \<open>a or b\<close> on names is \<open>or_else\<close>.
\<close>

record col_mapping =
  time_col :: "string option"
  lat_col :: "string option"
  lon_col :: "string option"
  value_col :: "string option"

definition truthy :: "string option \<Rightarrow> bool" where
  "truthy x = (case x of None \<Rightarrow> False | Some s \<Rightarrow> s \<noteq> [])"

definition or_else :: "string option \<Rightarrow> string \<Rightarrow> string" where
  "or_else x d = (case x of None \<Rightarrow> d | Some s \<Rightarrow> if s = [] then d else s)"

definition first_of :: "string list \<Rightarrow> string option" where
  "first_of xs = (case xs of [] \<Rightarrow> None | x # _ \<Rightarrow> Some x)"

text \<open>
  \<open>inspect_file_structure\<close> on the columns of the sampled file; \<open>var_name\<close> is the name
  of the file's directory.
\<close>

definition inspect_file_structure :: "string list \<Rightarrow> string \<Rightarrow> col_mapping" where
  "inspect_file_structure cols var_name =
     (let time_cols = filter (\<lambda>col. py_lower col \<in> set [''time'', ''time1'', ''time2'']) cols;
          lat_cols = filter (\<lambda>col. py_lower col \<in> set [''latitude'', ''lat'']) cols;
          lon_cols = filter (\<lambda>col. py_lower col \<in> set [''longitude'', ''lon'']) cols;
          value =
            (if ''value'' \<in> set cols then Some ''value''
             else if var_name \<in> set cols then Some var_name
             else if py_lower var_name \<in> set cols then Some (py_lower var_name)
             else if var_name @ ''m'' \<in> set cols then Some (var_name @ ''m'')
             else if rev var_name \<in> set cols then Some (rev var_name)
             else
               (let common_meta_cols = [''number'', ''step'', ''surface'', ''valid_time'', ''level''];
                    potential_value_cols =
                      filter (\<lambda>col. col \<notin> set (time_cols @ lat_cols @ lon_cols @ common_meta_cols)) cols
                in if potential_value_cols \<noteq> [] then Some (last potential_value_cols) else None))
      in \<lparr>time_col = first_of time_cols, lat_col = first_of lat_cols,
          lon_col = first_of lon_cols, value_col = value\<rparr>)"

text \<open>
  \<open>get_variable_metadata\<close>: the first file of each variable is sampled; a variable with no
  file or an unreadable sample gets no entry. Dictionaries that are iterated are
  association lists in insertion order.
\<close>

fun get_variable_metadata ::
  "(path \<Rightarrow> frame option) \<Rightarrow> (string \<times> path list) list \<Rightarrow> (string \<times> col_mapping) list" where
  "get_variable_metadata rd [] = []"
| "get_variable_metadata rd ((var_name, files) # rest) =
     (case files of
        [] \<Rightarrow> get_variable_metadata rd rest
      | sample_file # _ \<Rightarrow>
          (case rd sample_file of
             None \<Rightarrow> get_variable_metadata rd rest
           | Some df \<Rightarrow>
               (var_name, inspect_file_structure (columns df) var_name) #
               get_variable_metadata rd rest))"

subsection \<open>The most common coordinate names\<close>

text \<open>
  \<open>identify_join_columns\<close>: the occurrences of each name are counted in a dictionary, in
  order of first occurrence, and \<open>max\<close> returns the first entry with the largest count.
\<close>

fun bump_count :: "string \<Rightarrow> (string \<times> nat) list \<Rightarrow> (string \<times> nat) list" where
  "bump_count col [] = [(col, 1)]"
| "bump_count col ((k, n) # r) = (if k = col then (k, n + 1) # r else (k, n) # bump_count col r)"

definition count_names :: "string list \<Rightarrow> (string \<times> nat) list" where
  "count_names cols = foldl (\<lambda>counts col. bump_count col counts) [] cols"

fun max_by_count :: "string \<times> nat \<Rightarrow> (string \<times> nat) list \<Rightarrow> string \<times> nat" where
  "max_by_count best [] = best"
| "max_by_count best (x # xs) = max_by_count (if snd best < snd x then x else best) xs"

definition most_common :: "string \<Rightarrow> string list \<Rightarrow> string" where
  "most_common dflt cols =
     (case count_names cols of [] \<Rightarrow> dflt | x # xs \<Rightarrow> fst (max_by_count x xs))"

definition named :: "string option list \<Rightarrow> string list" where
  "named xs = map the (filter truthy xs)"

definition identify_join_columns :: "(string \<times> col_mapping) list \<Rightarrow> string \<times> string \<times> string" where
  "identify_join_columns var_metadata =
     (let all_time_cols = named (map (\<lambda>(v, meta). time_col meta) var_metadata);
          all_lat_cols = named (map (\<lambda>(v, meta). lat_col meta) var_metadata);
          all_lon_cols = named (map (\<lambda>(v, meta). lon_col meta) var_metadata)
      in (most_common ''time'' all_time_cols, most_common ''latitude'' all_lat_cols,
          most_common ''longitude'' all_lon_cols))"

subsection \<open>Staging one variable\<close>

record join_args =
  var_files :: "(string \<times> path list) list"
  var_metadata :: "(string \<times> col_mapping) list"
  excluded_vars :: "string list"
  join_cols :: "string \<times> string \<times> string"
  out_dir :: path
  out_name :: string
  join_chunk_size :: int
  time_filter :: "(cell \<Rightarrow> bool) option"
  include_vars :: "string list option"
  max_rows_in_memory :: int

text \<open>
  What lies outside the repository: \<open>read_csv\<close> gives the table of an input file, or None
  when reading raises; \<open>read_names\<close> gives the column names pandas reports for a header
  (it renames repeated names); \<open>merge_fails\<close> says that loading or merging a variable
  raises for a reason the tables do not show (incompatible key types, memory);
  \<open>output_write_fails\<close> that the write at a row offset of the output raises.
\<close>

record join_env =
  read_csv :: "path \<Rightarrow> frame option"
  read_names :: "string list \<Rightarrow> string list"
  merge_fails :: "string \<Rightarrow> bool"
  output_write_fails :: "nat \<Rightarrow> bool"

definition temp_dir :: "join_args \<Rightarrow> path" where
  "temp_dir a = out_dir a @ [''temp_joins'']"

definition var_output_file :: "join_args \<Rightarrow> string \<Rightarrow> path" where
  "var_output_file a var_name = temp_dir a @ [var_name @ ''_data.csv'']"

definition output_file :: "join_args \<Rightarrow> path" where
  "output_file a = out_dir a @ [out_name a]"

text \<open>
  \<open>df[names]\<close> on a frame with distinct columns: a missing name raises KeyError, a
  repeated name gives a repeated column.
\<close>

definition select_columns :: "frame \<Rightarrow> string list \<Rightarrow> frame option" where
  "select_columns df names =
     (if set names \<subseteq> set (columns df)
      then Some \<lparr>columns = names,
                 rows = map (\<lambda>r. map (\<lambda>n. r ! the (col_index (columns df) n)) names) (rows df)\<rparr>
      else None)"

text \<open>
  \<open>pd.concat(chunks, ignore_index=True)\<close>: the chunks staged for one variable carry the
  same four names, and the rows are appended; an empty list raises, and so do chunks whose
  columns differ (which needs a value column that is also a coordinate column, so that
  names repeat).
\<close>

definition concat_frames :: "frame list \<Rightarrow> frame option" where
  "concat_frames chunks =
     (case chunks of
        [] \<Rightarrow> None
      | f # r \<Rightarrow>
          if list_all (\<lambda>g. columns g = columns f) r
          then Some \<lparr>columns = columns f, rows = concat (map rows (f # r))\<rparr>
          else None)"

text \<open>
  Lines 282 to 329: one input file becomes a four-column frame named \<open>time\<close>,
  \<open>latitude\<close>, \<open>longitude\<close>, \<open>value\<close>, or is skipped (None). \<open>t\<close>, \<open>la\<close>, \<open>lo\<close>, \<open>v\<close> are
  the names of the variable's metadata.
\<close>

definition prepare_file ::
  "join_env \<Rightarrow> join_args \<Rightarrow> string \<Rightarrow> string \<times> string \<times> string \<times> string \<Rightarrow> path \<Rightarrow> frame option" where
  "prepare_file env a var_name names file =
     (case read_csv env file of
        None \<Rightarrow> None
      | Some df \<Rightarrow>
          (let (t0, la0, lo0, v0) = names;
               cols = columns df;
               redo = (t0 \<notin> set cols \<or> la0 \<notin> set cols \<or> lo0 \<notin> set cols);
               file_structure = inspect_file_structure cols var_name;
               t = (if redo then or_else (time_col file_structure) t0 else t0);
               la = (if redo then or_else (lat_col file_structure) la0 else la0);
               lo = (if redo then or_else (lon_col file_structure) lo0 else lo0);
               v1 = (if redo then or_else (value_col file_structure) v0 else v0)
           in if t \<notin> set cols \<or> la \<notin> set cols \<or> lo \<notin> set cols then None
              else
                (let potential_val_cols =
                       filter (\<lambda>col. col \<notin> set [t, la, lo, ''number'', ''step'', ''surface'']) cols
                 in if v1 \<notin> set cols \<and> potential_val_cols = [] then None
                    else
                      (let v = (if v1 \<in> set cols then v1 else last potential_val_cols)
                       in case select_columns df [t, la, lo, v] of
                            None \<Rightarrow> None
                          | Some d \<Rightarrow>
                              Some (rename_columns
                                      [t \<mapsto> ''time'', la \<mapsto> ''latitude'', lo \<mapsto> ''longitude'',
                                       v \<mapsto> ''value'']
                                      (case time_filter a of
                                         None \<Rightarrow> d
                                       | Some keep \<Rightarrow> d\<lparr>rows := filter (\<lambda>r. keep (r ! 0)) (rows d)\<rparr>))))))"

text \<open>
  Writing the accumulated chunks to the variable's staging file: appended without header
  when the file exists, written with header otherwise.
\<close>

definition flush_chunks :: "store \<Rightarrow> path \<Rightarrow> frame \<Rightarrow> store" where
  "flush_chunks fs p combined =
     (case fs p of
        None \<Rightarrow> fs(p \<mapsto> Table combined)
      | Some _ \<Rightarrow> append_rows fs p (rows combined))"

text \<open>
  Lines 332 to 357, for a positive chunk size: the state is the list of chunks held in
  memory, their row count and the store. When the concatenation raises, the file is
  abandoned with the chunks kept.
\<close>

function add_chunks ::
  "path \<Rightarrow> frame \<Rightarrow> nat \<Rightarrow> int \<Rightarrow> nat \<Rightarrow> frame list \<times> nat \<times> store \<Rightarrow> frame list \<times> nat \<times> store" where
  "add_chunks p df cs max_rows i (all_chunks, total_rows, fs) =
     (if cs = 0 \<or> length (rows df) \<le> i then (all_chunks, total_rows, fs)
      else
        (let df_chunk = df\<lparr>rows := take cs (drop i (rows df))\<rparr>;
             all_chunks' = all_chunks @ [df_chunk];
             total_rows' = total_rows + length (rows df_chunk)
         in if max_rows \<le> int total_rows' then
              (case concat_frames all_chunks' of
                 None \<Rightarrow> (all_chunks', total_rows', fs)
               | Some combined_df \<Rightarrow>
                   add_chunks p df cs max_rows (i + cs) ([], 0, flush_chunks fs p combined_df))
            else add_chunks p df cs max_rows (i + cs) (all_chunks', total_rows', fs)))"
  by pat_completeness auto
termination
  by (relation "measure (\<lambda>(p, df, cs, m, i, st). length (rows df) - i)") auto

definition stage_file ::
  "join_env \<Rightarrow> join_args \<Rightarrow> string \<Rightarrow> string \<times> string \<times> string \<times> string \<Rightarrow> path \<Rightarrow>
   frame list \<times> nat \<times> store \<Rightarrow> frame list \<times> nat \<times> store" where
  "stage_file env a var_name names file st =
     (case prepare_file env a var_name names file of
        None \<Rightarrow> st
      | Some df \<Rightarrow>
          if join_chunk_size a \<le> 0 then st
          else add_chunks (var_output_file a var_name) df (nat (join_chunk_size a))
                 (max_rows_in_memory a) 0 st)"

text \<open>
  One variable, lines 270 to 388. The last concatenation is outside every \<open>try\<close>: when
  it raises, the exception leaves the function (False in the first component).
\<close>

definition stage_variable ::
  "join_env \<Rightarrow> join_args \<Rightarrow> string \<Rightarrow> string \<times> string \<times> string \<times> string \<Rightarrow> path list \<Rightarrow> store \<Rightarrow>
   bool \<times> store" where
  "stage_variable env a var_name names files fs =
     (case fold (stage_file env a var_name names) files ([], 0, fs) of
        (all_chunks, total_rows, fs') \<Rightarrow>
          if all_chunks = [] then (True, fs')
          else (case concat_frames all_chunks of
                  None \<Rightarrow> (False, fs')
                | Some combined_df \<Rightarrow>
                    (True, flush_chunks fs' (var_output_file a var_name) combined_df)))"

definition selected_var_files :: "join_args \<Rightarrow> (string \<times> path list) list" where
  "selected_var_files a =
     filter (\<lambda>(var, files). var \<notin> set (excluded_vars a))
       (case include_vars a of
          None \<Rightarrow> var_files a
        | Some inc \<Rightarrow> filter (\<lambda>(var, files). var \<in> set inc) (var_files a))"

text \<open>
  The loop of lines 253 to 388 over the variables: the result is the list of the keys of
  \<open>var_output_files\<close>, in order, or None when an exception left the function.
\<close>

fun stage_all ::
  "join_env \<Rightarrow> join_args \<Rightarrow> (string \<times> path list) list \<Rightarrow> string list \<Rightarrow> store \<Rightarrow>
   string list option \<times> store" where
  "stage_all env a [] var_output_files fs = (Some var_output_files, fs)"
| "stage_all env a ((var_name, files) # rest) var_output_files fs =
     (case map_of (var_metadata a) var_name of
        None \<Rightarrow> stage_all env a rest var_output_files fs
      | Some meta \<Rightarrow>
          if \<not> truthy (time_col meta) \<or> \<not> truthy (lat_col meta) \<or> \<not> truthy (lon_col meta)
          then stage_all env a rest var_output_files fs
          else if \<not> truthy (value_col meta) then stage_all env a rest var_output_files fs
          else
            (case stage_variable env a var_name
                    (the (time_col meta), the (lat_col meta), the (lon_col meta), the (value_col meta))
                    files fs of
               (False, fs') \<Rightarrow> (None, fs')
             | (True, fs') \<Rightarrow> stage_all env a rest (var_output_files @ [var_name]) fs'))"

subsection \<open>Merging the staged variables\<close>

text \<open>
  \<open>drop_duplicates\<close> keeps the first of equal rows. The base frame holds the three key
  columns only, so its rows are its keys.
\<close>

fun drop_duplicates_from :: "'a list \<Rightarrow> 'a list \<Rightarrow> 'a list" where
  "drop_duplicates_from seen [] = []"
| "drop_duplicates_from seen (x # xs) =
     (if x \<in> set seen then drop_duplicates_from seen xs
      else x # drop_duplicates_from (x # seen) xs)"

definition drop_duplicates :: "'a list \<Rightarrow> 'a list" where
  "drop_duplicates xs = drop_duplicates_from [] xs"

definition key_names :: "string list" where
  "key_names = [''time'', ''latitude'', ''longitude'']"

text \<open>
  Lines 413 to 418, the base coordinate frame before \<open>drop_duplicates\<close>: the key columns
  of the staged file of the base variable; \<open>usecols\<close> raises when one is missing.
\<close>

definition load_base :: "join_env \<Rightarrow> content option \<Rightarrow> frame option" where
  "load_base env c =
     (case c of
        Some (Table t) \<Rightarrow> select_columns (t\<lparr>columns := read_names env (columns t)\<rparr>) key_names
      | _ \<Rightarrow> None)"

text \<open>
  Lines 432 to 438: the staged table of a variable, its value column renamed to the
  variable's name, or None when a step raises.
\<close>

definition load_var :: "join_env \<Rightarrow> content \<Rightarrow> string \<Rightarrow> frame option" where
  "load_var env c var_name =
     (case c of
        Error_log \<Rightarrow> None
      | Table t \<Rightarrow>
          select_columns
            (rename_columns [''value'' \<mapsto> var_name] (t\<lparr>columns := read_names env (columns t)\<rparr>))
            (key_names @ [var_name]))"

text \<open>
  \<open>pd.merge(base_df, var_df, on=['time', 'latitude', 'longitude'], how='left')\<close>, for a
  base frame whose first three columns are the keys and a four-column \<open>var_df\<close>: every
  base row is kept, once per matching row of \<open>var_df\<close>, or once with a missing value when
  none matches. Missing key cells match each other, as in pandas.
\<close>

definition left_merge :: "frame \<Rightarrow> frame \<Rightarrow> string \<Rightarrow> frame" where
  "left_merge base_df var_df var_name =
     \<lparr>columns = columns base_df @ [var_name],
      rows = concat (map (\<lambda>r.
               (let matches = filter (\<lambda>w. take 3 w = take 3 r) (rows var_df)
                in if matches = [] then [r @ [Null]] else map (\<lambda>w. r @ [w ! 3]) matches))
             (rows base_df))\<rparr>"

text \<open>
  Lines 422 to 458, one variable: a missing staging file or any exception skips the
  variable. The merge raises for a variable named like a key column (the label is then
  not unique); the names of the variables are the keys of a dictionary and differ from
  each other.
\<close>

definition merge_var :: "join_env \<Rightarrow> join_args \<Rightarrow> store \<Rightarrow> string \<Rightarrow> frame \<Rightarrow> frame" where
  "merge_var env a fs var_name base_df =
     (case fs (var_output_file a var_name) of
        None \<Rightarrow> base_df
      | Some c \<Rightarrow>
          (case load_var env c var_name of
             None \<Rightarrow> base_df
           | Some var_df \<Rightarrow>
               if merge_fails env var_name \<or> var_name \<in> set (columns base_df) then base_df
               else left_merge base_df var_df var_name))"

definition merge_vars :: "join_env \<Rightarrow> join_args \<Rightarrow> store \<Rightarrow> string list \<Rightarrow> frame \<Rightarrow> frame" where
  "merge_vars env a fs vars base_df = fold (merge_var env a fs) vars base_df"

definition parquet_output :: "join_args \<Rightarrow> bool" where
  "parquet_output a = (py_lower (snd (splitext (out_name a))) = ''.parquet'')"

definition write_output :: "join_env \<Rightarrow> join_args \<Rightarrow> frame \<Rightarrow> store \<Rightarrow> bool \<times> store" where
  "write_output env a df fs =
     (if parquet_output a then
        (if output_write_fails env 0 then (False, fs) else (True, fs(output_file a \<mapsto> Table df)))
      else write_csv_chunks (output_write_fails env) (output_file a) df
             (nat (max_rows_in_memory a)) 0 fs)"

definition remove_files :: "path list \<Rightarrow> store \<Rightarrow> store" where
  "remove_files ps fs = (\<lambda>p. if p \<in> set ps then None else fs p)"

datatype join_result = Returned bool | Raised

text \<open>
  Lines 390 to 518, given the keys of \<open>var_output_files\<close>. The frame that is merged and
  written is \<open>merged_frame\<close>. \<open>read_csv\<close> with a chunk size below 1 raises, and so does
  \<open>os.path.getsize\<close> when no output file is there after the write.
\<close>

definition merged_frame :: "join_env \<Rightarrow> join_args \<Rightarrow> string list \<Rightarrow> store \<Rightarrow> frame option" where
  "merged_frame env a var_output_files fs =
     (case var_output_files of
        [] \<Rightarrow> None
      | base_var # _ \<Rightarrow>
          if max_rows_in_memory a < 1 then None
          else (case load_base env (fs (var_output_file a base_var)) of
                  None \<Rightarrow> None
                | Some base0 \<Rightarrow>
                    Some (merge_vars env a fs var_output_files
                            (base0\<lparr>rows := drop_duplicates (rows base0)\<rparr>))))"

definition merge_phase :: "join_env \<Rightarrow> join_args \<Rightarrow> string list \<Rightarrow> store \<Rightarrow> join_result \<times> store" where
  "merge_phase env a var_output_files fs =
     (case var_output_files of
        [] \<Rightarrow> (Returned False, fs)
      | base_var # _ \<Rightarrow>
          if fs (var_output_file a base_var) = None then (Returned False, fs)
          else (case merged_frame env a var_output_files fs of
                  None \<Rightarrow> (Returned False, fs)
                | Some base_df \<Rightarrow>
                    (case write_output env a base_df fs of
                       (False, fs') \<Rightarrow> (Returned False, fs')
                     | (True, fs') \<Rightarrow>
                         if fs' (output_file a) = None then (Returned False, fs')
                         else (Returned True,
                               remove_files (map (var_output_file a) var_output_files) fs'))))"

text \<open>
  \<open>join_data_incrementally\<close>. The argument \<open>join_cols\<close> is not read anywhere in the
  function.
\<close>

definition join_data_incrementally :: "join_env \<Rightarrow> join_args \<Rightarrow> store \<Rightarrow> join_result \<times> store" where
  "join_data_incrementally env a fs =
     (case stage_all env a (selected_var_files a) [] fs of
        (None, fs1) \<Rightarrow> (Raised, fs1)
      | (Some var_output_files, fs1) \<Rightarrow> merge_phase env a var_output_files fs1)"

text \<open>
  The script's entry point: the metadata, the most common names, then the join; the
  result of the join is dropped.
\<close>

definition with_metadata :: "join_env \<Rightarrow> join_args \<Rightarrow> join_args" where
  "with_metadata env a =
     (let meta = get_variable_metadata (read_csv env) (var_files a)
      in a\<lparr>var_metadata := meta, join_cols := identify_join_columns meta\<rparr>)"

definition joiner_main :: "join_env \<Rightarrow> join_args \<Rightarrow> store \<Rightarrow> join_result \<times> store" where
  "joiner_main env a fs = join_data_incrementally env (with_metadata env a) fs"

subsection \<open>Notions used in the properties of the Joiner\<close>

text \<open>
  \<open>plurality dflt names c\<close>: \<open>c\<close> is the default when there is no name, and otherwise one
  of the names, such that no name occurs more often.
\<close>

definition plurality :: "string \<Rightarrow> string list \<Rightarrow> string \<Rightarrow> bool" where
  "plurality dflt names c =
     (if names = [] then c = dflt
      else c \<in> set names \<and> list_all (\<lambda>n. count_list names n \<le> count_list names c) names)"

text \<open>A variable is mappable when its metadata names all four roles.\<close>

definition mappable :: "join_args \<Rightarrow> string \<Rightarrow> bool" where
  "mappable a var_name =
     (case map_of (var_metadata a) var_name of
        None \<Rightarrow> False
      | Some meta \<Rightarrow> truthy (time_col meta) \<and> truthy (lat_col meta) \<and> truthy (lon_col meta) \<and>
                    truthy (value_col meta))"

text \<open>The staged table of a variable as the merge loads it, when it can be loaded.\<close>

definition var_table :: "join_env \<Rightarrow> join_args \<Rightarrow> store \<Rightarrow> string \<Rightarrow> frame option" where
  "var_table env a fs var_name =
     (case fs (var_output_file a var_name) of
        None \<Rightarrow> None
      | Some c \<Rightarrow> load_var env c var_name)"

text \<open>
  \<open>cell_from vt k x\<close>: the cell \<open>x\<close> of a joined row with key \<open>k\<close> comes from the staged
  table \<open>vt\<close>: it is the value of a row of \<open>vt\<close> with that key, or missing when \<open>vt\<close> has
  no such row.
\<close>

definition cell_from :: "frame \<Rightarrow> cell list \<Rightarrow> cell \<Rightarrow> bool" where
  "cell_from vt k x =
     (if list_ex (\<lambda>w. take 3 w = k) (rows vt)
      then list_ex (\<lambda>w. take 3 w = k \<and> w ! 3 = x) (rows vt)
      else x = Null)"

text \<open>
  A keyed frame starts with the three key columns and has one cell per column in every
  row; in a sourced frame every further column is named after a variable whose staged
  table gives its cells.
\<close>

definition keyed_frame :: "frame \<Rightarrow> bool" where
  "keyed_frame df =
     (take 3 (columns df) = key_names \<and> list_all (\<lambda>r. length r = length (columns df)) (rows df))"

definition sourced_frame :: "join_env \<Rightarrow> join_args \<Rightarrow> store \<Rightarrow> frame \<Rightarrow> bool" where
  "sourced_frame env a fs df =
     list_all (\<lambda>n. case var_table env a fs (columns df ! n) of
                     None \<Rightarrow> False
                   | Some vt \<Rightarrow> list_all (\<lambda>r. cell_from vt (take 3 r) (r ! n)) (rows df))
       [3 ..< length (columns df)]"

text \<open>
  The keys of \<open>var_output_files\<close> and the store when the merge starts, and the base
  coordinate frame as it is loaded from the staged file of the first of them.
\<close>

definition staged_vars :: "join_env \<Rightarrow> join_args \<Rightarrow> store \<Rightarrow> string list option" where
  "staged_vars env a fs = fst (stage_all env a (selected_var_files a) [] fs)"

definition staged_store :: "join_env \<Rightarrow> join_args \<Rightarrow> store \<Rightarrow> store" where
  "staged_store env a fs = snd (stage_all env a (selected_var_files a) [] fs)"

definition base_frame :: "join_env \<Rightarrow> join_args \<Rightarrow> store \<Rightarrow> frame option" where
  "base_frame env a fs =
     (case staged_vars env a fs of
        Some (base_var # _) \<Rightarrow> load_base env (staged_store env a fs (var_output_file a base_var))
      | _ \<Rightarrow> None)"

text \<open>The column names of a stored table.\<close>

definition table_columns :: "content option \<Rightarrow> string list option" where
  "table_columns c = (case c of Some (Table t) \<Rightarrow> Some (columns t) | _ \<Rightarrow> None)"

subsection \<open>Example runs of the Joiner\<close>

text \<open>
  Three variables of the unit 2021-05: \<open>10u\<close> and \<open>10v\<close>, written with the columns
  \<open>time1\<close>, \<open>lat\<close>, \<open>lon\<close> and \<open>u10\<close> or \<open>v10\<close>, and \<open>2t\<close>, written with \<open>time\<close>,
  \<open>latitude\<close>, \<open>longitude\<close>, \<open>t2m\<close> and lacking one of the keys of \<open>10u\<close>.
  \<open>empty_10u\<close> is a file of \<open>10u\<close> with a header and no rows.
\<close>

definition file_10u :: frame where
  "file_10u =
     \<lparr>columns = [''time1'', ''lat'', ''lon'', ''u10''],
      rows = [[Str ''2021-05-01 00:00'', Num 35, Num 10, Num 3],
              [Str ''2021-05-01 00:00'', Num 35, Num 11, Num 4],
              [Str ''2021-05-01 00:00'', Num 35, Num 10, Num 3]]\<rparr>"

definition file_10v :: frame where
  "file_10v =
     \<lparr>columns = [''time1'', ''lat'', ''lon'', ''v10''],
      rows = [[Str ''2021-05-01 00:00'', Num 35, Num 10, Num 7],
              [Str ''2021-05-01 00:00'', Num 35, Num 11, Num 8]]\<rparr>"

definition file_2t :: frame where
  "file_2t =
     \<lparr>columns = [''time'', ''latitude'', ''longitude'', ''t2m''],
      rows = [[Str ''2021-05-01 00:00'', Num 35, Num 10, Num 280]]\<rparr>"

definition empty_10u :: frame where
  "empty_10u = \<lparr>columns = [''time1'', ''lat'', ''lon'', ''u10''], rows = []\<rparr>"

definition example_env :: "frame \<Rightarrow> join_env" where
  "example_env f10u =
     \<lparr>read_csv = [[''processed'', ''2021'', ''05'', ''10u'', ''202105_10u.csv''] \<mapsto> f10u,
                  [''processed'', ''2021'', ''05'', ''10v'', ''202105_10v.csv''] \<mapsto> file_10v,
                  [''processed'', ''2021'', ''05'', ''2t'', ''202105_2t.csv''] \<mapsto> file_2t],
      read_names = (\<lambda>names. names), merge_fails = (\<lambda>v. False),
      output_write_fails = (\<lambda>i. False)\<rparr>"

definition example_join :: "(string \<times> path list) list \<Rightarrow> join_args" where
  "example_join vfs =
     \<lparr>var_files = vfs, var_metadata = [], excluded_vars = [],
      join_cols = (''time'', ''latitude'', ''longitude''),
      out_dir = [''joined'', ''2021''], out_name = ''joined_202105.csv'',
      join_chunk_size = 2, time_filter = None, include_vars = None, max_rows_in_memory = 2\<rparr>"

definition all_vars :: "(string \<times> path list) list" where
  "all_vars =
     [(''10u'', [[''processed'', ''2021'', ''05'', ''10u'', ''202105_10u.csv'']]),
      (''10v'', [[''processed'', ''2021'', ''05'', ''10v'', ''202105_10v.csv'']]),
      (''2t'', [[''processed'', ''2021'', ''05'', ''2t'', ''202105_2t.csv'']])]"

definition without_10u :: "(string \<times> path list) list" where
  "without_10u =
     [(''10v'', [[''processed'', ''2021'', ''05'', ''10v'', ''202105_10v.csv'']]),
      (''2t'', [[''processed'', ''2021'', ''05'', ''2t'', ''202105_2t.csv'']])]"

definition example_output :: path where
  "example_output = [''joined'', ''2021'', ''joined_202105.csv'']"

section \<open>Chronological Sorter (era5-chronological-sorter.py)\<close>

text \<open>
  \<open>sort_file_chronologically\<close> exists twice, in the sorter script and, with the same
  body, in the pipeline script; they differ in the prefix of the error log's name, a
  parameter here. The file store maps a path to a table or to an error log. The pandas
  and operating-system calls that can raise for reasons outside the table (an unreadable
  file, a full disk, a log directory that does not exist) are switched by the record
  \<open>faults\<close>.
\<close>

datatype py_exc = KeyError string | TypeError | ValueError | FileNotFoundError | OSError

datatype sort_result = Success | Failure_message string | Failure_raised py_exc | Uncaught py_exc

record sort_args =
  file_dir :: path
  file_name :: string
  chunk_size :: int
  max_memory_rows :: int
  backup :: bool
  log_dir :: "path option"

record faults =
  backup_fails :: bool
  read_fails :: bool
  write_fails :: "nat \<Rightarrow> bool"
  replace_fails :: bool
  log_fails :: bool

definition file_path :: "sort_args \<Rightarrow> path" where
  "file_path a = file_dir a @ [file_name a]"

definition backup_path :: "sort_args \<Rightarrow> path" where
  "backup_path a = file_dir a @ [''backup'', file_name a]"

definition temp_path :: "sort_args \<Rightarrow> path" where
  "temp_path a = file_dir a @ [file_name a @ ''.sorted'']"

definition error_log_path :: "string \<Rightarrow> path \<Rightarrow> sort_args \<Rightarrow> path" where
  "error_log_path prefix d a = d @ [prefix @ file_name a @ ''.log'']"

definition is_parquet :: "sort_args \<Rightarrow> bool" where
  "is_parquet a = (py_lower (snd (splitext (file_name a))) = ''.parquet'')"

definition is_datetime64 :: "cell list \<Rightarrow> bool" where
  "is_datetime64 xs = list_all (\<lambda>v. case v of Null \<Rightarrow> True | Stamp _ \<Rightarrow> True | _ \<Rightarrow> False) xs"

definition to_datetime_cell :: "(cell \<Rightarrow> int option) \<Rightarrow> cell \<Rightarrow> cell option" where
  "to_datetime_cell parse v =
     (case v of Null \<Rightarrow> Some Null | Stamp t \<Rightarrow> Some (Stamp t)
      | _ \<Rightarrow> map_option Stamp (parse v))"

definition normalize_time :: "(cell \<Rightarrow> int option) \<Rightarrow> frame \<Rightarrow> frame" where
  "normalize_time parse df =
     (if is_datetime64 (col_values df ''time'') then df
      else if list_all (\<lambda>v. to_datetime_cell parse v \<noteq> None) (col_values df ''time'')
           then map_column (\<lambda>v. the (to_datetime_cell parse v)) ''time'' df
           else df)"

text \<open>
  \<open>df.sort_values\<close> on several columns orders each key column through its sorted distinct
  values, missing values last. A column of one kind is ordered by value; in a column that
  mixes kinds (an object column, as chunked reading produces) the text values come after
  all the others. Numbers and timestamps in one column cannot be compared, and the sort
  raises TypeError.
\<close>

type_synonym cell_key = "nat \<times> rat \<times> string \<times> int"

fun cell_key :: "cell \<Rightarrow> cell_key" where
  "cell_key Null = (2, 0, [], 0)"
| "cell_key (Num x) = (0, x, [], 0)"
| "cell_key (Str s) = (1, 0, s, 0)"
| "cell_key (Stamp t) = (0, 0, [], t)"

definition is_num :: "cell \<Rightarrow> bool" where
  "is_num v = (case v of Num _ \<Rightarrow> True | _ \<Rightarrow> False)"

definition is_stamp :: "cell \<Rightarrow> bool" where
  "is_stamp v = (case v of Stamp _ \<Rightarrow> True | _ \<Rightarrow> False)"

definition comparable :: "cell list \<Rightarrow> bool" where
  "comparable xs = (\<not> (list_ex is_num xs \<and> list_ex is_stamp xs))"

definition row_key :: "nat \<Rightarrow> nat \<Rightarrow> nat \<Rightarrow> cell list \<Rightarrow> cell_key \<times> cell_key \<times> cell_key" where
  "row_key i j k r = (cell_key (r ! i), cell_key (r ! j), cell_key (r ! k))"

definition sort_values :: "frame \<Rightarrow> py_exc + frame" where
  "sort_values df =
     (case col_index (columns df) ''time'' of
        None \<Rightarrow> Inl (KeyError ''time'')
      | Some i \<Rightarrow>
     (case col_index (columns df) ''latitude'' of
        None \<Rightarrow> Inl (KeyError ''latitude'')
      | Some j \<Rightarrow>
     (case col_index (columns df) ''longitude'' of
        None \<Rightarrow> Inl (KeyError ''longitude'')
      | Some k \<Rightarrow>
          if comparable (col_values df ''time'') \<and> comparable (col_values df ''latitude'') \<and>
             comparable (col_values df ''longitude'')
          then Inr (df\<lparr>rows := sort_key (row_key i j k) (rows df)\<rparr>)
          else Inl TypeError)))"

text \<open>
  The write of lines 156 to 165. A failed write leaves what was written so far. The second
  component is the store afterwards.
\<close>

definition write_sorted :: "faults \<Rightarrow> sort_args \<Rightarrow> frame \<Rightarrow> store \<Rightarrow> py_exc option \<times> store" where
  "write_sorted flt a df fs =
     (if is_parquet a then
        (if write_fails flt 0 then (Some OSError, fs) else (None, fs(temp_path a \<mapsto> Table df)))
      else
        (let cs = min (chunk_size a) (max_memory_rows a)
         in if cs = 0 then (Some ValueError, fs)
            else if cs < 0 then (None, fs)
            else (case write_csv_chunks (write_fails flt) (temp_path a) df (nat cs) 0 fs of
                    (True, fs') \<Rightarrow> (None, fs')
                  | (False, fs') \<Rightarrow> (Some OSError, fs'))))"

text \<open>
  Lines 114 to 126: reading the table. \<open>read_csv\<close> rejects a chunk size below 1.
\<close>

definition load_table :: "faults \<Rightarrow> sort_args \<Rightarrow> store \<Rightarrow> py_exc + frame" where
  "load_table flt a fs =
     (if \<not> is_parquet a \<and> chunk_size a < 1 then Inl ValueError
      else if read_fails flt then Inl OSError
      else case fs (file_path a) of
             None \<Rightarrow> Inl FileNotFoundError
           | Some Error_log \<Rightarrow> Inl ValueError
           | Some (Table df) \<Rightarrow> Inr df)"

definition no_time_message :: string where
  "no_time_message = ''No '' @ [CHR 0x27] @ ''time'' @ [CHR 0x27] @ '' column found''"

text \<open>The body of the \<open>try\<close>, lines 113 to 178: \<open>Inl\<close> is an exception it raises.\<close>

definition sort_body ::
  "(cell \<Rightarrow> int option) \<Rightarrow> faults \<Rightarrow> sort_args \<Rightarrow> store \<Rightarrow> (py_exc + sort_result) \<times> store" where
  "sort_body parse flt a fs =
     (case load_table flt a fs of
        Inl e \<Rightarrow> (Inl e, fs)
      | Inr df \<Rightarrow>
          if ''time'' \<notin> set (columns df) then (Inr (Failure_message no_time_message), fs)
          else (case sort_values (normalize_time parse df) of
                  Inl e \<Rightarrow> (Inl e, fs)
                | Inr sorted_df \<Rightarrow>
                    (case write_sorted flt a sorted_df fs of
                       (Some e, fs') \<Rightarrow> (Inl e, fs')
                     | (None, fs') \<Rightarrow>
                         if replace_fails flt then (Inl OSError, fs')
                         else (case fs' (temp_path a) of
                                 None \<Rightarrow> (Inl FileNotFoundError, fs')
                               | Some c \<Rightarrow>
                                   (Inr Success,
                                    (fs'(temp_path a := None))(file_path a \<mapsto> c))))))"

text \<open>
  The whole function. The backup copy is made before the \<open>try\<close>, so an exception there
  escapes; an exception inside the \<open>try\<close> is reported as a failure, after the error log
  is written when a log directory is given. Opening the error log is not guarded: when
  it raises, the exception leaves the function.
\<close>

definition sort_file_chronologically ::
  "string \<Rightarrow> (cell \<Rightarrow> int option) \<Rightarrow> faults \<Rightarrow> sort_args \<Rightarrow> store \<Rightarrow> sort_result \<times> store" where
  "sort_file_chronologically log_prefix parse flt a fs =
     (if backup a \<and> fs (file_path a) = None then (Uncaught FileNotFoundError, fs)
      else if backup a \<and> backup_fails flt then (Uncaught OSError, fs)
      else
        (let fs1 = (if backup a then fs(backup_path a := fs (file_path a)) else fs)
         in case sort_body parse flt a fs1 of
              (Inr r, fs2) \<Rightarrow> (r, fs2)
            | (Inl e, fs2) \<Rightarrow>
                (case log_dir a of
                   None \<Rightarrow> (Failure_raised e, fs2)
                 | Some d \<Rightarrow>
                     if log_fails flt then (Uncaught OSError, fs2)
                     else (Failure_raised e, fs2(error_log_path log_prefix d a \<mapsto> Error_log)))))"


definition pipeline_sorter :: "(cell \<Rightarrow> int option) \<Rightarrow> faults \<Rightarrow> sort_args \<Rightarrow> store \<Rightarrow> sort_result \<times> store" where
  "pipeline_sorter = sort_file_chronologically ''sort_error_''"

subsection \<open>Example runs of the Sorter\<close>









section \<open>Properties\<close>

declare str_nat.simps [simp del]
declare chunk_loop.simps [simp del]

lemma col_index_None_iff: "col_index xs c = None \<longleftrightarrow> c \<notin> set xs"
  by (induction xs) auto

lemma col_index_SomeD: "col_index xs c = Some i \<Longrightarrow> i < length xs \<and> xs ! i = c"
  by (induction xs arbitrary: i) (auto split: if_splits)

lemma col_index_inj: "col_index xs c = Some i \<Longrightarrow> col_index xs c' = Some i \<Longrightarrow> c = c'"
  using col_index_SomeD by blast

lemma keep_positions_nth:
  "length r = length cols \<Longrightarrow> c \<notin> set cs \<Longrightarrow> col_index cols c = Some i \<Longrightarrow>
   \<exists>j. col_index (filter (\<lambda>c. c \<notin> set cs) cols) c = Some j \<and> keep_positions cols cs r ! j = r ! i"
proof (induction cols arbitrary: r i)
  case Nil
  then show ?case by simp
next
  case (Cons x xs)
  then obtain y ys where r: "r = y # ys" by (cases r) auto
  show ?case
  proof (cases "x = c")
    case True
    with Cons r show ?thesis by (simp add: keep_positions_def)
  next
    case False
    with Cons.prems obtain i' where i': "col_index xs c = Some i'" "i = Suc i'" by auto
    from Cons.IH[of ys i'] Cons.prems r i'
    obtain j where "col_index (filter (\<lambda>c. c \<notin> set cs) xs) c = Some j" "keep_positions xs cs ys ! j = ys ! i'"
      by auto
    with False r i' show ?thesis by (auto simp: keep_positions_def)
  qed
qed

lemma col_values_drop_columns:
  assumes "wf_frame df" "c \<notin> set cs" "c \<in> set (columns df)"
  shows "col_values (drop_columns df cs) c = col_values df c"
proof -
  from assms(3) obtain i where i: "col_index (columns df) c = Some i"
    by (cases "col_index (columns df) c") (auto simp: col_index_None_iff)
  have "c \<in> set (filter (\<lambda>c. c \<notin> set cs) (columns df))" using assms by simp
  then obtain j where j: "col_index (filter (\<lambda>c. c \<notin> set cs) (columns df)) c = Some j"
    by (cases "col_index (filter (\<lambda>c. c \<notin> set cs) (columns df)) c") (auto simp: col_index_None_iff)
  have "\<forall>r \<in> set (rows df). keep_positions (columns df) cs r ! j = r ! i"
  proof
    fix r assume "r \<in> set (rows df)"
    with assms(1) have "length r = length (columns df)" by (auto simp: wf_frame_def list_all_iff)
    from keep_positions_nth[OF this assms(2) i] j show "keep_positions (columns df) cs r ! j = r ! i" by auto
  qed
  with i j show ?thesis by (simp add: col_values_def drop_columns_def)
qed

lemma set_cols_to_remove:
  "set (cols_to_remove df) = {c \<in> set (columns df). c \<in> set cols_to_check \<and> nunique (col_values df c) = 1}"
  by (auto simp: cols_to_remove_def)

lemma prune_columns:
  "columns (prune_constant_cols df) =
     filter (\<lambda>c. \<not> (c \<in> set cols_to_check \<and> nunique (col_values df c) = 1)) (columns df)"
proof -
  have "filter (\<lambda>c. c \<notin> set (cols_to_remove df)) (columns df) =
        filter (\<lambda>c. \<not> (c \<in> set cols_to_check \<and> nunique (col_values df c) = 1)) (columns df)"
    by (rule filter_cong) (auto simp: set_cols_to_remove)
  moreover have "cols_to_remove df = [] \<Longrightarrow>
     filter (\<lambda>c. \<not> (c \<in> set cols_to_check \<and> nunique (col_values df c) = 1)) (columns df) = columns df"
    using set_cols_to_remove[of df] by (auto simp: filter_id_conv)
  ultimately show ?thesis by (simp add: prune_constant_cols_def drop_columns_def)
qed

lemma prune_values:
  assumes "wf_frame df" "c \<in> set (columns (prune_constant_cols df))"
  shows "col_values (prune_constant_cols df) c = col_values df c"
proof (cases "cols_to_remove df = []")
  case True
  then show ?thesis by (simp add: prune_constant_cols_def)
next
  case False
  from assms(2) have "c \<in> set (columns df)" "c \<notin> set (cols_to_remove df)"
    by (auto simp: prune_columns set_cols_to_remove)
  with False assms(1) show ?thesis
    by (simp add: prune_constant_cols_def col_values_drop_columns)
qed

lemma map_column_columns: "columns (map_column f c df) = columns df"
  by (simp add: map_column_def split: option.splits)

lemma col_values_map_column_other:
  assumes "c \<noteq> c'"
  shows "col_values (map_column f c df) c' = col_values df c'"
proof (cases "col_index (columns df) c")
  case None
  then show ?thesis by (simp add: map_column_def)
next
  case (Some i)
  show ?thesis
  proof (cases "col_index (columns df) c'")
    case None
    with Some show ?thesis by (simp add: map_column_def col_values_def)
  next
    case (Some j)
    with \<open>col_index (columns df) c = Some i\<close> assms have "i \<noteq> j"
      using col_index_inj by blast
    with Some \<open>col_index (columns df) c = Some i\<close> show ?thesis
      by (simp add: map_column_def col_values_def)
  qed
qed

lemma fold_round_columns:
  "columns (fold (\<lambda>c d. if c \<in> set (columns d) \<and> is_numeric_dtype (col_values d c)
                  then map_column g c d else d) cs df) = columns df"
  by (induction cs arbitrary: df) (simp_all add: map_column_columns)

lemma fold_round_values:
  "c' \<notin> set cs \<Longrightarrow>
   col_values (fold (\<lambda>c d. if c \<in> set (columns d) \<and> is_numeric_dtype (col_values d c)
                  then map_column g c d else d) cs df) c' = col_values df c'"
proof (induction cs arbitrary: df)
  case Nil
  then show ?case by simp
next
  case (Cons a cs)
  then have "a \<noteq> c'" "c' \<notin> set cs" by auto
  with Cons.IH show ?case by (simp add: col_values_map_column_other)
qed

lemma round_coordinates_columns: "columns (round_coordinates rnd p df) = columns df"
  unfolding round_coordinates_def by (rule fold_round_columns)

lemma round_coordinates_checked:
  "c \<in> set cols_to_check \<Longrightarrow> col_values (round_coordinates rnd p df) c = col_values df c"
  unfolding round_coordinates_def
  by (rule fold_round_values) (auto simp: cols_to_check_def)

lemma rename_value_columns:
  "columns (if v \<in> set (columns d) then rename_columns [v \<mapsto> ''value''] d else d) =
   map (\<lambda>c. if c = v then ''value'' else c) (columns d)"
proof (cases "v \<in> set (columns d)")
  case True
  then show ?thesis by (simp add: rename_columns_def)
next
  case False
  then have "map (\<lambda>c. if c = v then ''value'' else c) (columns d) = map (\<lambda>c. c) (columns d)"
    by (intro map_cong) auto
  with False show ?thesis by simp
qed

text \<open>
  Claim C7, as amended. With constant-column removal enabled, the columns of every chunk
  the Extractor writes are the columns of the decoded chunk, in order, without those of
  \<open>number\<close>, \<open>step\<close> and \<open>surface\<close> that have exactly one distinct non-missing value in
  the chunk (and with the variable's own column renamed to \<open>value\<close>). Any other column
  is kept, constant or not.
\<close>

theorem pruned_columns:
  assumes "remove_constant_cols cfg"
  shows "columns (finish_frame rnd cfg var_name df) =
     map (\<lambda>c. if c = var_name then ''value'' else c)
       (filter (\<lambda>c. \<not> (c \<in> set cols_to_check \<and> nunique (col_values df c) = 1)) (columns df))"
proof -
  define df1 where "df1 = (case decimal_precision cfg of None \<Rightarrow> df | Some p \<Rightarrow> round_coordinates rnd p df)"
  have c1: "columns df1 = columns df"
    by (simp add: df1_def round_coordinates_columns split: option.splits)
  have v1: "c \<in> set cols_to_check \<Longrightarrow> col_values df1 c = col_values df c" for c
    by (simp add: df1_def round_coordinates_checked split: option.splits)
  have "filter (\<lambda>c. \<not> (c \<in> set cols_to_check \<and> nunique (col_values df1 c) = 1)) (columns df) =
        filter (\<lambda>c. \<not> (c \<in> set cols_to_check \<and> nunique (col_values df c) = 1)) (columns df)"
    by (rule filter_cong) (auto simp: v1)
  then have pc: "columns (prune_constant_cols df1) =
     filter (\<lambda>c. \<not> (c \<in> set cols_to_check \<and> nunique (col_values df c) = 1)) (columns df)"
    by (simp add: prune_columns c1)
  have f: "finish_frame rnd cfg var_name df =
     (if var_name \<in> set (columns (prune_constant_cols df1))
      then rename_columns [var_name \<mapsto> ''value''] (prune_constant_cols df1)
      else prune_constant_cols df1)"
    using assms by (simp add: finish_frame_def df1_def Let_def)
  have "columns (finish_frame rnd cfg var_name df) =
     map (\<lambda>c. if c = var_name then ''value'' else c) (columns (prune_constant_cols df1))"
    unfolding f by (rule rename_value_columns)
  then show ?thesis by (simp only: pc)
qed

theorem pruned_columns_witness:
  "remove_constant_cols ex_cfg \<and>
   columns (finish_frame (\<lambda>p v. v) ex_cfg ''t2m'' ex_chunk) = [''time'', ''latitude'', ''longitude'', ''value'']"
  using pruned_columns [of ex_cfg "\<lambda>p v. v" "''t2m''" ex_chunk]
  by (simp add: ex_cfg_def ex_chunk_def cols_to_check_def nunique_def col_values_def)

text \<open>
  Claim C7 as stated fails: in a chunk over a single latitude the column \<open>latitude\<close> is
  constant and is still written.
\<close>

theorem constant_latitude_kept:
  "remove_constant_cols ex_cfg \<and> nunique (col_values ex_chunk ''latitude'') = 1 \<and>
   ''latitude'' \<in> set (columns (finish_frame (\<lambda>p v. v) ex_cfg ''t2m'' ex_chunk))"
  by (simp add: ex_cfg_def ex_chunk_def finish_frame_def prune_constant_cols_def cols_to_remove_def
      cols_to_check_def nunique_def col_values_def drop_columns_def rename_columns_def)





lemma chunk_loop_ok_indep:
  "fst (chunk_loop rnd cfg vd td y m v cs n i fs) = fst (chunk_loop rnd cfg vd td y' m' v cs n i fs')"
proof (induction rnd cfg vd td y m v cs n i fs arbitrary: fs' rule: chunk_loop.induct)
  case (1 rnd cfg vd td y m v cs n i fs)
  show ?case
  proof (cases "cs = 0 \<or> n \<le> i")
    case True
    then show ?thesis by (simp add: chunk_loop.simps)
  next
    case False
    show ?thesis
    proof (cases "vd_slice vd td i (min (i + cs) n)")
      case None
      with False show ?thesis by (simp add: chunk_loop.simps)
    next
      case (Some df)
      from False Some show ?thesis
        by (subst chunk_loop.simps, subst (2) chunk_loop.simps)
           (simp add: Let_def "1.IH"[OF False refl Some])
    qed
  qed
qed

lemma process_variable_data_ok_indep:
  "fst (process_variable_data rnd cfg vd y m v fs) = fst (process_variable_data rnd cfg vd y' m' v fs')"
  by (auto simp: process_variable_data_def chunk_loop_ok_indep[of _ _ _ _ y m _ _ _ _ fs y' m' fs']
      split: option.splits)

lemma process_all_vars_ok_indep:
  "fst (process_all_vars rnd cfg y m ds fs) = fst (process_all_vars rnd cfg y' m' ds fs')"
proof (induction ds arbitrary: fs fs')
  case Nil
  then show ?case by simp
next
  case (Cons a ds)
  obtain n s vd where a: "a = (n, s, vd)" by (cases a) auto
  obtain ok fs1 where r: "process_variable_data rnd cfg vd y m s fs = (ok, fs1)"
    by (cases "process_variable_data rnd cfg vd y m s fs") auto
  obtain ok' fs1' where r': "process_variable_data rnd cfg vd y' m' s fs' = (ok', fs1')"
    by (cases "process_variable_data rnd cfg vd y' m' s fs'") auto
  from process_variable_data_ok_indep[of rnd cfg vd y m s fs y' m' fs'] r r' have "ok = ok'" by simp
  with a r r' Cons.IH[of fs1 fs1'] show ?case by (cases ok') simp_all
qed

lemma process_era5_variable_ok_indep:
  "fst (process_era5_variable rnd now cfg g vn fs) =
   fst (process_era5_variable rnd now' cfg (g\<lparr>gf_base_filename := b\<rparr>) vn fs')"
proof -
  obtain y m w where ym: "year_month_of now (gf_base_filename g) = ((y, m), w)"
    by (metis surj_pair)
  obtain y' m' w' where ym': "year_month_of now' b = ((y', m'), w')"
    by (metis surj_pair)
  show ?thesis
    unfolding process_era5_variable_def
    by (simp add: ym ym' Let_def
        process_variable_data_ok_indep[of rnd cfg _ y m _ fs y' m' fs']
        process_all_vars_ok_indep[of rnd cfg y m _ fs y' m' fs']
        del: process_all_vars.simps
        split: option.splits list.splits prod.splits)
qed

lemma variable_ok_any_files:
  "fst (process_era5_variable rnd now cfg g (Some v) fs) = variable_ok rnd now cfg g v"
  using process_era5_variable_ok_indep[of rnd now cfg g "Some v" fs now "gf_base_filename g" Map.empty]
  by (simp add: variable_ok_def)

lemma extract_loop_lists:
  "fst (extract_loop rnd now cfg g vs successful failed fs) =
     (successful @ filter (variable_ok rnd now cfg g) vs,
      failed @ filter (\<lambda>v. \<not> variable_ok rnd now cfg g v) vs)"
proof (induction vs arbitrary: successful failed fs)
  case Nil
  then show ?case by simp
next
  case (Cons v vs)
  obtain ok fs1 where r: "process_era5_variable rnd now cfg g (Some v) fs = (ok, fs1)"
    by (cases "process_era5_variable rnd now cfg g (Some v) fs") auto
  with variable_ok_any_files[of rnd now cfg g v fs] have ok: "variable_ok rnd now cfg g v = ok" by simp
  show ?case using r ok Cons.IH by (cases ok) simp_all
qed

text \<open>
  Claim C6, as amended. Each variable of a raw file is processed on its own: the result of
  \<open>process_era5_file\<close> lists as successful exactly the variables whose decode succeeds
  and as failed exactly the others, so a failure never stops the variables after it. The
  script drops these lists and ends with status 0, so \<open>run_converter\<close> reports the
  extraction as successful whatever the lists hold.
\<close>

theorem variable_failures_isolated_exit_zero:
  "fst (process_era5_file rnd now cfg g variables exclude_variables fs) =
     (filter (variable_ok rnd now cfg g) (variables_to_process g variables exclude_variables),
      filter (\<lambda>v. \<not> variable_ok rnd now cfg g v) (variables_to_process g variables exclude_variables))
   \<and> run_converter True (fst (converter_main rnd now True cfg g variables exclude_variables fs))"
  by (simp add: process_era5_file_def Let_def extract_loop_lists converter_main_def run_converter_def)

text \<open>
  Claim C6 as stated fails: for a raw file whose only variable cannot be decoded, no
  variable succeeds and the Orchestrator still records the extraction as successful.
\<close>

theorem zero_decoded_reported_success:
  "fst (process_era5_file (\<lambda>p v. v) (2026, 11) ex_cfg corrupt_grib None None Map.empty) = ([], [''wind_v''])
   \<and> run_converter True (fst (converter_main (\<lambda>p v. v) (2026, 11) True ex_cfg corrupt_grib None None Map.empty))"
  by (simp add: process_era5_file_def variables_to_process_def corrupt_grib_def
      process_era5_variable_def Let_def converter_main_def run_converter_def split: prod.splits)



subsection \<open>Chronological Sorter\<close>

text \<open>
  The order of the keys is the order of the values, with text after numbers and
  timestamps, and missing values last.
\<close>

lemma cell_key_order:
  "cell_key (Num x) \<le> cell_key (Num y) \<longleftrightarrow> x \<le> y"
  "cell_key (Str s) \<le> cell_key (Str t) \<longleftrightarrow> s \<le> t"
  "cell_key (Stamp m) \<le> cell_key (Stamp n) \<longleftrightarrow> m \<le> n"
  "cell_key (Num x) < cell_key (Str s)" "cell_key (Stamp m) < cell_key (Str s)"
  "cell_key (Num x) < cell_key Null" "cell_key (Str s) < cell_key Null"
  "cell_key (Stamp m) < cell_key Null"
  by (auto simp: less_eq_prod_def less_prod_def)

declare write_csv_chunks.simps [simp del]










lemma error_log_neq_backup: "error_log_path pre d a \<noteq> backup_path a"
proof
  assume "error_log_path pre d a = backup_path a"
  then have "last (error_log_path pre d a) = last (backup_path a)" by simp
  then have "length (pre @ file_name a @ ''.log'') = length (file_name a)"
    by (simp add: error_log_path_def backup_path_def)
  then show False by simp
qed




















end
